theory Spec2Isabelle
  imports Complex_Main
begin

section \<open>Numbers and vectors\<close>

text \<open>
  JavaScript numbers are modelled as reals: the development is about the arithmetic the
  code writes down, not about IEEE rounding, NaN or the Float32Array storage format.
  Random draws (\<^verbatim>\<open>Math.random()\<close>) and wall-clock reads (\<^verbatim>\<open>Date.now()\<close>) are inputs
  of the functions that make them.
\<close>

text \<open>The remainder operator \<^verbatim>\<open>a % b\<close> of JavaScript: the quotient is truncated towards zero.\<close>

definition trunc :: "real \<Rightarrow> int" where
  "trunc x = (if 0 \<le> x then \<lfloor>x\<rfloor> else \<lceil>x\<rceil>)"

definition jsrem :: "real \<Rightarrow> real \<Rightarrow> real" where
  "jsrem a b = a - b * of_int (trunc (a / b))"

text \<open>\<^verbatim>\<open>function fmod(a,b){return ((a % b)+b)%b;}\<close>\<close>

definition fmod :: "real \<Rightarrow> real \<Rightarrow> real" where
  "fmod a b = jsrem (jsrem a b + b) b"

text \<open>\<^verbatim>\<open>Math.atan2(y, x)\<close>, the angle of the point \<open>(x, y)\<close> in \<open>(-\<pi>, \<pi>]\<close>.\<close>

definition atan2 :: "real \<Rightarrow> real \<Rightarrow> real" where
  "atan2 y x =
     (if 0 < x then arctan (y / x)
      else if x < 0 \<and> 0 \<le> y then arctan (y / x) + pi
      else if x < 0 then arctan (y / x) - pi
      else if 0 < y then pi / 2
      else if y < 0 then - (pi / 2)
      else 0)"

text \<open>\<^verbatim>\<open>THREE.Vector3\<close>\<close>

record vec3 =
  vx :: real
  vy :: real
  vz :: real

section \<open>FloatingParticles\<close>

definition PARTICLE_LIFETIME :: real where
  "PARTICLE_LIFETIME = 4"

definition PARTICLE_SPEED :: real where
  "PARTICLE_SPEED = 0.3"

record burstParticle =
  position :: vec3
  velocity :: vec3
  life :: real
  maxLife :: real
  size :: real

text \<open>The object held by \<^verbatim>\<open>burstStateRef\<close>; \<open>btype\<close> is its field \<^verbatim>\<open>type\<close> (\<open>None\<close> for null).\<close>

record burstState =
  isActive :: bool
  startTime :: real
  btype :: "string option"
  burstParticles :: "burstParticle list"

text \<open>
  The uniform table of the particle material. The frame callback tests that the entry
  \<^verbatim>\<open>uTransactionType\<close> exists before it writes the two transaction uniforms, so that entry is
  optional here.
\<close>

record uniforms =
  uTime :: real
  uTransactionType :: "real option"
  uTransactionIntensity :: real

text \<open>The prop \<^verbatim>\<open>transactionEffect\<close>.\<close>

record transactionEffect =
  teType :: "string option"
  teIsActive :: bool

text \<open>
  The mutable state of one mounted component: the refs, the geometry's position array
  (\<open>None\<close> while the geometry is not mounted) and the memoised particle data
  (\<open>originalPositions\<close> is \<open>None\<close> when there is no source geometry; \<open>lifetimes\<close> is
  \<^verbatim>\<open>particleAttributes.lifetimes\<close>).
\<close>

record fpState =
  materialRef :: "uniforms option"
  burstStateRef :: burstState
  lastTimeRef :: real
  geometryPositions :: "real list option"
  originalPositions :: "real list option"
  lifetimes :: "real list"

subsection \<open>Particle data\<close>


subsection \<open>Starting a burst\<close>

text \<open>
  Burst particle \<open>i\<close> of 50; \<open>rnd\<close> gives the four random draws made for it (elevation,
  speed, maxLife, size).
\<close>

definition numBurstParticles :: nat where
  "numBurstParticles = 50"

definition mkBurstParticle :: "(nat \<Rightarrow> real) \<Rightarrow> nat \<Rightarrow> burstParticle" where
  "mkBurstParticle rnd i =
     (let angle = (real i / real numBurstParticles) * pi * 2;
          elevation = (rnd (4 * i) - 0.5) * pi * 0.5;
          speed = 2 + rnd (4 * i + 1) * 3
      in \<lparr> position = \<lparr> vx = 0, vy = -2, vz = 0 \<rparr>,
           velocity = \<lparr> vx = cos angle * cos elevation * speed,
                        vy = sin elevation * speed * 0.5,
                        vz = sin angle * cos elevation * speed \<rparr>,
           life = 1.0,
           maxLife = 0.8 + rnd (4 * i + 2) * 0.4,
           size = 2 + rnd (4 * i + 3) * 4 \<rparr>)"

text \<open>
  The effect that runs when the prop \<^verbatim>\<open>transactionEffect\<close> changes (\<open>None\<close> for a null prop);
  \<open>now\<close> is \<^verbatim>\<open>Date.now()\<close>.
\<close>

definition burstInitEffect ::
  "transactionEffect option \<Rightarrow> (nat \<Rightarrow> real) \<Rightarrow> real \<Rightarrow> fpState \<Rightarrow> fpState" where
  "burstInitEffect te rnd now s =
     (case te of
        None \<Rightarrow> s
      | Some t \<Rightarrow>
          if teIsActive t \<and> \<not> isActive (burstStateRef s)
          then s\<lparr> burstStateRef :=
                    \<lparr> isActive = True,
                      startTime = now,
                      btype = teType t,
                      burstParticles = map (mkBurstParticle rnd) [0..<numBurstParticles] \<rparr> \<rparr>
          else s)"

subsection \<open>The frame callback\<close>

text \<open>
  What one call of the frame callback reads from outside the component: the clock
  (\<^verbatim>\<open>state.clock.getElapsedTime()\<close>), \<^verbatim>\<open>Date.now()\<close>, \<^verbatim>\<open>effectConfig?.burstDuration\<close>
  (\<open>None\<close> when the configuration or the field is missing), the delayed mouse position
  after its conversion to the local space of the points object, \<^verbatim>\<open>forcefieldConfig.radius\<close>
  and \<^verbatim>\<open>currentStrength.current\<close>.
\<close>

record frameInput =
  globalTime :: real
  dateNow :: real
  burstDuration :: "real option"
  localMouse :: vec3
  radius :: real
  strengthBase :: real

text \<open>\<^verbatim>\<open>effectConfig?.burstDuration || 1.5\<close>: a missing or zero duration gives the default.\<close>

definition burstDurationOf :: "real option \<Rightarrow> real" where
  "burstDurationOf cfg = (case cfg of None \<Rightarrow> 1.5 | Some d \<Rightarrow> if d = 0 then 1.5 else d)"

definition burstElapsedOf :: "real \<Rightarrow> burstState \<Rightarrow> real" where
  "burstElapsedOf now b = (now - startTime b) / 1000"

text \<open>Gravity, air resistance, movement and ageing of one burst particle.\<close>

definition updateBurstParticle :: "real \<Rightarrow> burstParticle \<Rightarrow> burstParticle" where
  "updateBurstParticle delta p =
     (let v0 = velocity p;
          v1 = v0\<lparr> vy := vy v0 - delta * 2 \<rparr>;
          v2 = \<lparr> vx = vx v1 * 0.98, vy = vy v1 * 0.98, vz = vz v1 * 0.98 \<rparr>;
          q = position p
      in p\<lparr> velocity := v2,
              position := \<lparr> vx = vx q + vx v2 * delta,
                             vy = vy q + vy v2 * delta,
                             vz = vz q + vz v2 * delta \<rparr>,
              life := life p - delta / maxLife p \<rparr>)"

definition transactionTypeCode :: "string option \<Rightarrow> real" where
  "transactionTypeCode t =
     (if t = Some ''buy'' then 1.0 else (if t = Some ''sell'' then 2.0 else 0.0))"

definition burstIntensity :: "real \<Rightarrow> real \<Rightarrow> real" where
  "burstIntensity burstElapsed dur = max 0 (1 - burstElapsed / dur)"

text \<open>
  The burst block of the frame callback, on the burst state and the material's uniforms.
\<close>

definition burstStep :: "real \<Rightarrow> real \<Rightarrow> real option \<Rightarrow> burstState \<times> uniforms \<Rightarrow> burstState \<times> uniforms" where
  "burstStep delta now cfg bu =
     (let b = fst bu; u = snd bu in
      if isActive b then
        (let burstElapsed = burstElapsedOf now b;
             dur = burstDurationOf cfg
         in if burstElapsed < dur then
              (let b' = b\<lparr> burstParticles := map (updateBurstParticle delta) (burstParticles b) \<rparr>
               in if uTransactionType u \<noteq> None
                  then (b', u\<lparr> uTransactionType := Some (transactionTypeCode (btype b)),
                               uTransactionIntensity := burstIntensity burstElapsed dur \<rparr>)
                  else (b', u))
            else (b\<lparr> isActive := False, burstParticles := [] \<rparr>, u))
      else (b, u))"

text \<open>The four noise layers of the forcefield and their combination.\<close>

definition spatialNoise :: "real \<Rightarrow> real \<Rightarrow> real \<Rightarrow> real \<Rightarrow> real" where
  "spatialNoise ox oy oz time = sin (ox * 8.314 + oy * 5.926 + oz * 7.847 + time * 0.7) * 0.5 + 0.5"

definition temporalNoise :: "real \<Rightarrow> real \<Rightarrow> real \<Rightarrow> real" where
  "temporalNoise ox oy time = sin (time * 1.2 + ox * 3.141 + oy * 2.718) * 0.5 + 0.5"

definition detailNoise :: "real \<Rightarrow> real \<Rightarrow> real \<Rightarrow> real \<Rightarrow> real" where
  "detailNoise ox oy oz time = sin (ox * 23.456 + oy * 17.321 + oz * 11.789 + time * 2.1) * 0.5 + 0.5"

definition dirNoise :: "real \<Rightarrow> real \<Rightarrow> real \<Rightarrow> real" where
  "dirNoise dx dy time = sin (atan2 dy dx * 4.0 + time * 0.8) * 0.5 + 0.5"

definition combinedNoise :: "real \<Rightarrow> real \<Rightarrow> real \<Rightarrow> real \<Rightarrow> real \<Rightarrow> real \<Rightarrow> real" where
  "combinedNoise ox oy oz dx dy time =
     spatialNoise ox oy oz time * 0.4 +
     temporalNoise ox oy time * 0.3 +
     detailNoise ox oy oz time * 0.2 +
     dirNoise dx dy time * 0.1"

definition randomFactor :: "real \<Rightarrow> real \<Rightarrow> real \<Rightarrow> real \<Rightarrow> real \<Rightarrow> real \<Rightarrow> real" where
  "randomFactor ox oy oz dx dy time = combinedNoise ox oy oz dx dy time * 0.7 + 0.3"

definition force :: "real \<Rightarrow> real \<Rightarrow> real" where
  "force dst r = (1 - dst / r) ^ 2"

definition distTo :: "real \<Rightarrow> real \<Rightarrow> real \<Rightarrow> vec3 \<Rightarrow> real" where
  "distTo ox oy oz m =
     sqrt ((ox - vx m) * (ox - vx m) + (oy - vy m) * (oy - vy m) + (oz - vz m) * (oz - vz m))"

text \<open>
  The seed position written for a respawning particle whose original position is
  \<open>(ox, oy, oz)\<close>.
\<close>

definition respawnPosition ::
  "real \<Rightarrow> vec3 \<Rightarrow> real \<Rightarrow> real \<Rightarrow> real \<Rightarrow> real \<Rightarrow> real \<Rightarrow> real \<times> real \<times> real" where
  "respawnPosition gt m r strength ox oy oz =
     (let dx = ox - vx m;
          dy = oy - vy m;
          dz = oz - vz m;
          dst = sqrt (dx * dx + dy * dy + dz * dz)
      in if dst < r \<and> dst > 0.000001 then
           (let time = gt * 0.3;
                displacement = strength * force dst r * randomFactor ox oy oz dx dy time;
                inv = 1.0 / dst
            in (ox + dx * inv * displacement,
                oy + dy * inv * displacement,
                oz + dz * inv * displacement))
         else (ox, oy, oz))"

text \<open>The age of particle \<open>i\<close> and the respawn test of the loop.\<close>

definition ageOf :: "real \<Rightarrow> real list \<Rightarrow> nat \<Rightarrow> real" where
  "ageOf gt lts i = fmod (gt - lts ! i) PARTICLE_LIFETIME"

definition respawns :: "real \<Rightarrow> real \<Rightarrow> real list \<Rightarrow> nat \<Rightarrow> bool" where
  "respawns gt delta lts i \<longleftrightarrow> ageOf gt lts i < delta"

text \<open>
  One iteration of the respawn loop, on the position array. The original position is read
  from \<open>orig\<close>, the copy made when the particle data was built. A write beyond the end of
  a typed array does nothing, as \<open>list_update\<close> does.
\<close>

definition respawnParticle ::
  "real \<Rightarrow> real \<Rightarrow> vec3 \<Rightarrow> real \<Rightarrow> real \<Rightarrow> real list \<Rightarrow> real list \<Rightarrow> nat \<Rightarrow> real list \<Rightarrow> real list" where
  "respawnParticle gt delta m r strength orig lts i positions =
     (if respawns gt delta lts i then
        (let idx = i * 3;
             n = respawnPosition gt m r strength (orig ! idx) (orig ! (idx + 1)) (orig ! (idx + 2))
         in positions[idx := fst n, idx + 1 := fst (snd n), idx + 2 := snd (snd n)])
      else positions)"

definition respawnLoop ::
  "real \<Rightarrow> real \<Rightarrow> vec3 \<Rightarrow> real \<Rightarrow> real \<Rightarrow> real list \<Rightarrow> real list \<Rightarrow> real list \<Rightarrow> real list" where
  "respawnLoop gt delta m r strength orig lts positions =
     fold (respawnParticle gt delta m r strength orig lts) [0..<length lts] positions"

text \<open>The frame callback of FloatingParticles.\<close>

definition FloatingParticles_useFrame :: "frameInput \<Rightarrow> fpState \<Rightarrow> fpState" where
  "FloatingParticles_useFrame inp s =
     (case materialRef s of
        None \<Rightarrow> s
      | Some u0 \<Rightarrow>
          (let delta = globalTime inp - lastTimeRef s;
               u1 = u0\<lparr> uTime := globalTime inp \<rparr>;
               bu = burstStep delta (dateNow inp) (burstDuration inp) (burstStateRef s, u1);
               s1 = s\<lparr> lastTimeRef := globalTime inp,
                        materialRef := Some (snd bu),
                        burstStateRef := fst bu \<rparr>
           in case (geometryPositions s1, originalPositions s1) of
                (Some positions, Some orig) \<Rightarrow>
                  s1\<lparr> geometryPositions :=
                         Some (respawnLoop (globalTime inp) delta (localMouse inp) (radius inp)
                                 (strengthBase inp) orig (lifetimes s1) positions) \<rparr>
              | _ \<Rightarrow> s1))"

text \<open>A run of frames, one input per frame.\<close>

definition FloatingParticles_frames :: "frameInput list \<Rightarrow> fpState \<Rightarrow> fpState" where
  "FloatingParticles_frames inps s = fold FloatingParticles_useFrame inps s"

section \<open>ParticleFrame\<close>



















section \<open>PFPCard\<close>

type_synonym texture = nat

text \<open>
  The state of the card component: the React state variables (\<open>currentTexture\<close>,
  \<open>nextTexture\<close>, \<open>isTransitioning\<close>, \<open>isSpinning\<close>), the refs (\<open>baseRotation\<close>,
  \<open>spinStartRotation\<close>, \<open>spinProgress\<close>, \<open>transitionProgress\<close>), the transform of the
  group behind \<^verbatim>\<open>meshRef\<close> (\<open>meshMounted\<close> says that the ref is set) and the opacity of the
  material of each of the two meshes (\<open>None\<close> while the mesh ref is null; every mesh the
  component mounts carries a material with an opacity).
\<close>

record cardState =
  currentTexture :: "texture option"
  nextTexture :: "texture option"
  isTransitioning :: bool
  isSpinning :: bool
  baseRotation :: real
  spinStartRotation :: real
  spinProgress :: real
  transitionProgress :: real
  meshMounted :: bool
  rotationX :: real
  rotationY :: real
  positionY :: real
  currentMeshOpacity :: "real option"
  nextMeshOpacity :: "real option"

text \<open>
  The callback of the texture loader, for the loaded texture \<open>t\<close>. It tests
  \<open>currentTexture\<close> and \<open>isSpinning\<close> as they were in the render \<open>r\<close> in which the effect on
  \<^verbatim>\<open>generatedImage\<close> ran and started the load; its writes go to the state \<open>s\<close> in which the
  texture arrives.
\<close>

definition textureLoaded :: "cardState \<Rightarrow> texture \<Rightarrow> cardState \<Rightarrow> cardState" where
  "textureLoaded r t s =
     (if currentTexture r \<noteq> None
      then (if \<not> isSpinning r
            then s\<lparr> nextTexture := Some t, isTransitioning := True, transitionProgress := 0 \<rparr>
            else s\<lparr> nextTexture := Some t, isTransitioning := True, transitionProgress := 0 \<rparr>)
      else s\<lparr> currentTexture := Some t \<rparr>)"

text \<open>The effect on \<^verbatim>\<open>isGenerating\<close>: a spin starts from the current base rotation.\<close>

definition generationStartEffect :: "bool \<Rightarrow> cardState \<Rightarrow> cardState" where
  "generationStartEffect isGenerating s =
     (if isGenerating
      then s\<lparr> isSpinning := True, spinStartRotation := baseRotation s, spinProgress := 0 \<rparr>
      else s)"

text \<open>The effect on \<^verbatim>\<open>[isSpinning, isTransitioning, nextTexture]\<close>.\<close>

definition spinCompletionEffect :: "cardState \<Rightarrow> cardState" where
  "spinCompletionEffect s =
     (if \<not> isSpinning s \<and> isTransitioning s \<and> nextTexture s \<noteq> None
      then s\<lparr> currentTexture := nextTexture s, nextTexture := None, isTransitioning := False \<rparr>
      else s)"

text \<open>
  The frame callback reads the React state variables of the render it was created in:
  a \<^verbatim>\<open>setIsSpinning\<close> or \<^verbatim>\<open>setIsTransitioning\<close> made during the frame shows in the next
  render only, while a write to a ref shows at once. Each block below therefore takes the
  rendered state \<open>r\<close>, for the state variables, and the state \<open>s\<close> in progress, for the
  refs and for the pending values of the state variables.
\<close>

definition spinSpeed :: real where
  "spinSpeed = 1.5"

definition normalizeRotation :: "real \<Rightarrow> real" where
  "normalizeRotation start =
     (let completedRotation = start + pi * 2;
          normalizedRotation = jsrem (jsrem completedRotation (pi * 2) + pi * 2) (pi * 2)
      in if normalizedRotation > pi then normalizedRotation - pi * 2 else normalizedRotation)"

definition spinBlock :: "real \<Rightarrow> real \<Rightarrow> cardState \<Rightarrow> cardState \<Rightarrow> cardState" where
  "spinBlock elapsedTime delta r s =
     (if meshMounted s then
        (if isSpinning r then
           (let p = min (spinProgress s + delta * spinSpeed) 1.0;
                easedProgress = p * p * (3 - 2 * p);
                currentYRotation = spinStartRotation s + (pi * 2) * easedProgress;
                s1 = s\<lparr> spinProgress := p, rotationY := currentYRotation,
                         rotationX := 0, positionY := 0 \<rparr>
            in if spinProgress s1 \<ge> 1.0
               then s1\<lparr> baseRotation := normalizeRotation (spinStartRotation s1),
                         isSpinning := False,
                         spinProgress := 0 \<rparr>
               else s1)
         else s\<lparr> rotationX := sin (elapsedTime * 0.3) * 0.02,
                  positionY := sin (elapsedTime * 0.8) * 0.1,
                  rotationY := baseRotation s + sin (elapsedTime * 0.5) * 0.05 \<rparr>)
      else s)"

definition crossfadeStart :: real where
  "crossfadeStart = 0.4"

definition transitionSpeed :: real where
  "transitionSpeed = 2.0"

text \<open>The first branch of the transition block: the crossfade follows the spin.\<close>

definition spinCrossfade :: "cardState \<Rightarrow> cardState" where
  "spinCrossfade s =
     (let crossfadeProgress =
            max 0 (min ((spinProgress s - crossfadeStart) / (1.0 - crossfadeStart)) 1.0)
      in s\<lparr> currentMeshOpacity := Some (1.0 - crossfadeProgress),
             nextMeshOpacity := Some crossfadeProgress \<rparr>)"

text \<open>The second branch: the pending texture becomes the current one at once.\<close>

definition completeTransition :: "cardState \<Rightarrow> cardState \<Rightarrow> cardState" where
  "completeTransition r s =
     s\<lparr> currentTexture := nextTexture r, nextTexture := None, isTransitioning := False \<rparr>"

text \<open>The last branch: the crossfade follows the time.\<close>

definition timedCrossfade :: "real \<Rightarrow> cardState \<Rightarrow> cardState \<Rightarrow> cardState" where
  "timedCrossfade delta r s =
     (let s1 = s\<lparr> transitionProgress := transitionProgress s + delta * transitionSpeed \<rparr>;
          s2 = (if transitionProgress s1 \<ge> 1.0
                then (let s1' = s1\<lparr> transitionProgress := 1.0 \<rparr>
                      in if nextTexture r \<noteq> None then completeTransition r s1' else s1')
                else s1);
          progress = min (transitionProgress s2) 1.0
      in s2\<lparr> currentMeshOpacity := Some (1.0 - progress),
              nextMeshOpacity := Some progress \<rparr>)"

definition transitionBlock :: "real \<Rightarrow> cardState \<Rightarrow> cardState \<Rightarrow> cardState" where
  "transitionBlock delta r s =
     (if isTransitioning r \<and> nextTexture r \<noteq> None
         \<and> currentMeshOpacity s \<noteq> None \<and> nextMeshOpacity s \<noteq> None
      then (if isSpinning r then spinCrossfade s
            else if \<not> isSpinning r \<and> nextTexture r \<noteq> None then completeTransition r s
            else timedCrossfade delta r s)
      else s)"

text \<open>The last block: outside a transition the current mesh is opaque, the next one clear.\<close>

definition stableOpacityBlock :: "cardState \<Rightarrow> cardState \<Rightarrow> cardState" where
  "stableOpacityBlock r s =
     (if \<not> isTransitioning r
      then s\<lparr> currentMeshOpacity := map_option (\<lambda>_. 1.0) (currentMeshOpacity s),
               nextMeshOpacity := map_option (\<lambda>_. 0.0) (nextMeshOpacity s) \<rparr>
      else s)"

text \<open>The frame callback of PFPCard, for \<^verbatim>\<open>state.clock.elapsedTime\<close> and \<^verbatim>\<open>delta\<close>.\<close>

definition PFPCard_useFrame :: "real \<Rightarrow> real \<Rightarrow> cardState \<Rightarrow> cardState" where
  "PFPCard_useFrame elapsedTime delta r =
     stableOpacityBlock r (transitionBlock delta r (spinBlock elapsedTime delta r r))"

section \<open>Measuring and example data\<close>

text \<open>The Euclidean distance of two points, and the three coordinates of particle \<open>i\<close> in a
  flat coordinate array.\<close>

definition distance3 :: "real \<times> real \<times> real \<Rightarrow> real \<times> real \<times> real \<Rightarrow> real" where
  "distance3 p q =
     sqrt ((fst p - fst q)\<^sup>2 + (fst (snd p) - fst (snd q))\<^sup>2 + (snd (snd p) - snd (snd q))\<^sup>2)"

definition seedAt :: "real list \<Rightarrow> nat \<Rightarrow> real \<times> real \<times> real" where
  "seedAt xs i = (xs ! (i * 3), xs ! (i * 3 + 1), xs ! (i * 3 + 2))"

text \<open>The distance of the original position of particle \<open>i\<close> to the interaction point.\<close>

definition sourceDistance :: "real list \<Rightarrow> nat \<Rightarrow> vec3 \<Rightarrow> real" where
  "sourceDistance orig i m = distTo (orig ! (i * 3)) (orig ! (i * 3 + 1)) (orig ! (i * 3 + 2)) m"

text \<open>The burst state of a fresh component, and a buy burst started at \<open>Date.now() = 1000\<close>,
  with one particle.\<close>

definition idleBurst :: burstState where
  "idleBurst = \<lparr> isActive = False, startTime = 0, btype = None, burstParticles = [] \<rparr>"

definition activeBurst :: burstState where
  "activeBurst =
     \<lparr> isActive = True, startTime = 1000, btype = Some ''buy'',
       burstParticles = [\<lparr> position = \<lparr> vx = 0, vy = -2, vz = 0 \<rparr>,
                           velocity = \<lparr> vx = 1, vy = 1, vz = 0 \<rparr>,
                           life = 1, maxLife = 1, size = 2 \<rparr>] \<rparr>"

text \<open>
  A swarm of one particle at \<open>(1, 0, 0)\<close> with phase offset 0, and two frames at which it
  respawns: one with the interaction point at distance 0.5, inside the radius 2, and one
  with the interaction point at distance 3, outside.
\<close>

definition exampleUniforms :: uniforms where
  "exampleUniforms = \<lparr> uTime = 0, uTransactionType = Some 0, uTransactionIntensity = 0 \<rparr>"

definition exampleSwarm :: fpState where
  "exampleSwarm =
     \<lparr> materialRef = Some exampleUniforms,
       burstStateRef = idleBurst,
       lastTimeRef = 3.9,
       geometryPositions = Some [1, 0, 0],
       originalPositions = Some [1, 0, 0],
       lifetimes = [0] \<rparr>"

definition nearFrame :: frameInput where
  "nearFrame =
     \<lparr> globalTime = 4, dateNow = 0, burstDuration = None,
       localMouse = \<lparr> vx = 0.5, vy = 0, vz = 0 \<rparr>, radius = 2, strengthBase = 0.4 \<rparr>"

definition farFrame :: frameInput where
  "farFrame =
     \<lparr> globalTime = 8, dateNow = 0, burstDuration = None,
       localMouse = \<lparr> vx = 4, vy = 0, vz = 0 \<rparr>, radius = 2, strengthBase = 0.4 \<rparr>"









text \<open>
  A card at rest showing texture 1; the next mesh is mounted only during a transition. The
  same card just after texture 2 was loaded: the render that follows mounts the next mesh,
  whose fresh material is opaque. And that card in a spin that started at rotation 1 and
  has progressed to 0.7.
\<close>

definition stableCard :: cardState where
  "stableCard =
     \<lparr> currentTexture = Some 1, nextTexture = None, isTransitioning = False,
       isSpinning = False, baseRotation = 0, spinStartRotation = 0, spinProgress = 0,
       transitionProgress = 0, meshMounted = True, rotationX = 0, rotationY = 0,
       positionY = 0, currentMeshOpacity = Some 1, nextMeshOpacity = None \<rparr>"

definition requestedCard :: cardState where
  "requestedCard = (textureLoaded stableCard 2 stableCard)\<lparr> nextMeshOpacity := Some 1 \<rparr>"

definition spinningCard :: cardState where
  "spinningCard =
     requestedCard\<lparr> isSpinning := True, spinStartRotation := 1, spinProgress := 0.7 \<rparr>"

section \<open>Remainders\<close>

lemma jsrem_nonneg: "0 \<le> a \<Longrightarrow> 0 < b \<Longrightarrow> 0 \<le> jsrem a b \<and> jsrem a b < b"
proof -
  assume a: "0 \<le> a" and b: "0 < b"
  have q: "0 \<le> a / b" using a b by simp
  have 1: "of_int \<lfloor>a / b\<rfloor> \<le> a / b" by (rule of_int_floor_le)
  have 2: "a / b < of_int \<lfloor>a / b\<rfloor> + 1" by linarith
  from 1 b have "b * of_int \<lfloor>a / b\<rfloor> \<le> b * (a / b)"
    by (simp only: mult_le_cancel_left_pos)
  then have 3: "b * of_int \<lfloor>a / b\<rfloor> \<le> a" using b by simp
  from 2 b have "b * (a / b) < b * (of_int \<lfloor>a / b\<rfloor> + 1)"
    by (simp only: mult_less_cancel_left_pos)
  then have 4: "a < b * (of_int \<lfloor>a / b\<rfloor> + 1)" using b by simp
  show ?thesis using q 3 4 by (simp add: jsrem_def trunc_def algebra_simps)
qed

lemma jsrem_lower: "0 < b \<Longrightarrow> - b < jsrem a b"
proof (cases "0 \<le> a")
  case True
  assume "0 < b"
  with True jsrem_nonneg[of a b] show ?thesis by linarith
next
  case False
  assume b: "0 < b"
  from False b have q: "\<not> 0 \<le> a / b" by (simp add: zero_le_divide_iff)
  have 1: "of_int \<lceil>a / b\<rceil> < a / b + 1" by linarith
  from 1 b have "b * of_int \<lceil>a / b\<rceil> < b * (a / b + 1)" by (simp only: mult_less_cancel_left_pos)
  then have "b * of_int \<lceil>a / b\<rceil> < a + b" using b by (simp add: algebra_simps)
  then show ?thesis using q by (simp add: jsrem_def trunc_def)
qed

lemma fmod_range: "0 < b \<Longrightarrow> 0 \<le> fmod a b \<and> fmod a b < b"
  unfolding fmod_def using jsrem_nonneg[of "jsrem a b + b" b] jsrem_lower[of b a] by simp

lemma jsrem_congr: "\<exists>k::int. jsrem a b = a + of_int k * b"
  by (rule exI[of _ "- trunc (a / b)"]) (simp add: jsrem_def)

lemma fmod_congr: "\<exists>k::int. fmod a b = a + of_int k * b"
proof -
  obtain k1 :: int where k1: "jsrem a b = a + of_int k1 * b" using jsrem_congr by blast
  obtain k2 :: int where k2: "jsrem (jsrem a b + b) b = (jsrem a b + b) + of_int k2 * b"
    using jsrem_congr by blast
  have "fmod a b = a + of_int (k1 + 1 + k2) * b"
    unfolding fmod_def using k1 k2 by (simp add: algebra_simps)
  then show ?thesis by blast
qed

section \<open>The forcefield displacement\<close>

lemma sin_layer_range: "0 \<le> sin x * 0.5 + 0.5 \<and> sin x * 0.5 + 0.5 \<le> (1::real)"
  using sin_ge_minus_one[of x] sin_le_one[of x] by linarith

lemma noise_layers_range:
  "0 \<le> spatialNoise ox oy oz t \<and> spatialNoise ox oy oz t \<le> 1"
  "0 \<le> temporalNoise ox oy t \<and> temporalNoise ox oy t \<le> 1"
  "0 \<le> detailNoise ox oy oz t \<and> detailNoise ox oy oz t \<le> 1"
  "0 \<le> dirNoise dx dy t \<and> dirNoise dx dy t \<le> 1"
  unfolding spatialNoise_def temporalNoise_def detailNoise_def dirNoise_def
  by (rule sin_layer_range)+

lemma combinedNoise_range:
  "0 \<le> combinedNoise ox oy oz dx dy t \<and> combinedNoise ox oy oz dx dy t \<le> 1"
  using noise_layers_range(1)[of ox oy oz t] noise_layers_range(2)[of ox oy t]
    noise_layers_range(3)[of ox oy oz t] noise_layers_range(4)[of dx dy t]
  unfolding combinedNoise_def by simp

lemma randomFactor_range:
  "0.3 \<le> randomFactor ox oy oz dx dy t \<and> randomFactor ox oy oz dx dy t \<le> 1"
  using combinedNoise_range[of ox oy oz dx dy t] unfolding randomFactor_def by simp

lemma force_range:
  assumes "0 \<le> dst" "dst < r"
  shows "0 \<le> force dst r \<and> force dst r \<le> 1"
proof -
  have r: "0 < r" using assms by simp
  have q0: "0 \<le> dst / r" using assms r by simp
  have q1: "dst / r < 1" using assms r by simp
  have a: "0 \<le> 1 - dst / r" and b: "1 - dst / r \<le> 1" using q0 q1 by simp_all
  have "(1 - dst / r)\<^sup>2 \<le> 1" by (rule power_le_one[OF a b])
  then show ?thesis unfolding force_def by simp
qed

lemma displacement_range:
  assumes "0 \<le> strength" "0 \<le> dst" "dst < r"
  shows "0 \<le> strength * force dst r * randomFactor ox oy oz dx dy t"
    and "strength * force dst r * randomFactor ox oy oz dx dy t \<le> strength"
proof -
  let ?f = "force dst r" and ?k = "randomFactor ox oy oz dx dy t"
  have f: "0 \<le> ?f" "?f \<le> 1" using force_range[OF assms(2,3)] by simp_all
  have k: "0 \<le> ?k" "?k \<le> 1" using randomFactor_range[of ox oy oz dx dy t] by simp_all
  have fk0: "0 \<le> ?f * ?k" using f k by simp
  have fk1: "?f * ?k \<le> 1 * 1" using f k by (intro mult_mono) simp_all
  show "0 \<le> strength * ?f * ?k" using assms(1) fk0 by (simp add: mult.assoc)
  have "strength * (?f * ?k) \<le> strength * 1"
    using assms(1) fk1 by (intro mult_left_mono) simp_all
  then show "strength * ?f * ?k \<le> strength" by (simp add: mult.assoc)
qed

lemma scaled_direction_norm:
  fixes dx dy dz c :: real
  assumes D: "D = sqrt (dx * dx + dy * dy + dz * dz)" and pos: "0 < D" and c: "0 \<le> c"
  shows "sqrt ((dx * (1.0 / D) * c)\<^sup>2 + (dy * (1.0 / D) * c)\<^sup>2 + (dz * (1.0 / D) * c)\<^sup>2) = c"
proof -
  have D2: "D\<^sup>2 = dx * dx + dy * dy + dz * dz"
    unfolding D by (simp add: power2_eq_square[symmetric])
  have t: "(a * (1.0 / D) * c)\<^sup>2 = (a * a) * (c\<^sup>2 / D\<^sup>2)" for a :: real
    by (simp add: power2_eq_square)
  have "(dx * (1.0 / D) * c)\<^sup>2 + (dy * (1.0 / D) * c)\<^sup>2 + (dz * (1.0 / D) * c)\<^sup>2
        = D\<^sup>2 * (c\<^sup>2 / D\<^sup>2)"
    unfolding t D2 by (simp only: distrib_right)
  also have "\<dots> = c\<^sup>2" using pos by simp
  finally show ?thesis using c by simp
qed

lemma respawnPosition_bound:
  assumes "0 \<le> strength"
  shows "distance3 (respawnPosition gt m r strength ox oy oz) (ox, oy, oz) \<le> strength"
proof -
  define dx dy dz where "dx = ox - vx m" and "dy = oy - vy m" and "dz = oz - vz m"
  define D where "D = sqrt (dx * dx + dy * dy + dz * dz)"
  define c where "c = strength * force D r * randomFactor ox oy oz dx dy (gt * 0.3)"
  show ?thesis
  proof (cases "D < r \<and> D > 0.000001")
    case True
    then have pos: "0 < D" by simp
    have c: "0 \<le> c" "c \<le> strength"
      unfolding c_def using displacement_range[OF assms, of D r] True pos by simp_all
    have eq: "respawnPosition gt m r strength ox oy oz =
              (ox + dx * (1.0 / D) * c, oy + dy * (1.0 / D) * c, oz + dz * (1.0 / D) * c)"
      using True unfolding respawnPosition_def Let_def dx_def dy_def dz_def D_def c_def by simp
    have "distance3 (respawnPosition gt m r strength ox oy oz) (ox, oy, oz) = c"
      unfolding eq distance3_def using scaled_direction_norm[OF D_def pos c(1)] by simp
    then show ?thesis using c by simp
  next
    case False
    then have "respawnPosition gt m r strength ox oy oz = (ox, oy, oz)"
      unfolding respawnPosition_def Let_def dx_def dy_def dz_def D_def by auto
    then show ?thesis using assms by (simp add: distance3_def)
  qed
qed

lemma respawnPosition_outside:
  assumes "distTo ox oy oz m \<ge> r \<or> distTo ox oy oz m \<le> 0.000001"
  shows "respawnPosition gt m r strength ox oy oz = (ox, oy, oz)"
  using assms unfolding respawnPosition_def distTo_def Let_def by auto

section \<open>The respawn loop\<close>

lemma respawnParticle_length:
  "length (respawnParticle gt delta m r strength orig lts i ps) = length ps"
  by (simp add: respawnParticle_def Let_def)

lemma respawnParticle_other:
  "j < i * 3 \<or> i * 3 + 3 \<le> j \<Longrightarrow>
   respawnParticle gt delta m r strength orig lts i ps ! j = ps ! j"
  by (auto simp: respawnParticle_def Let_def)

lemma respawnParticle_seed:
  assumes "respawns gt delta lts i" "i * 3 + 2 < length ps"
  shows "seedAt (respawnParticle gt delta m r strength orig lts i ps) i =
         respawnPosition gt m r strength (orig ! (i * 3)) (orig ! (i * 3 + 1)) (orig ! (i * 3 + 2))"
  using assms by (simp add: respawnParticle_def seedAt_def Let_def)

lemma respawnParticle_seed_old:
  assumes "\<not> respawns gt delta lts i"
  shows "respawnParticle gt delta m r strength orig lts i ps = ps"
  using assms by (simp add: respawnParticle_def)

lemma respawnFold_length:
  "length (fold (respawnParticle gt delta m r strength orig lts) [0..<n] ps) = length ps"
  by (induction n) (simp_all add: respawnParticle_length)

lemma respawnFold_beyond:
  "n * 3 \<le> j \<Longrightarrow>
   fold (respawnParticle gt delta m r strength orig lts) [0..<n] ps ! j = ps ! j"
proof (induction n)
  case 0
  then show ?case by simp
next
  case (Suc n)
  then show ?case by (simp add: respawnParticle_other)
qed

lemma respawnFold_seed:
  assumes "i < n" "i * 3 + 2 < length ps"
  shows "seedAt (fold (respawnParticle gt delta m r strength orig lts) [0..<n] ps) i =
         seedAt (respawnParticle gt delta m r strength orig lts i ps) i"
  using assms
proof (induction n)
  case 0
  then show ?case by simp
next
  case (Suc n)
  let ?f = "respawnParticle gt delta m r strength orig lts"
  let ?F = "fold ?f [0..<n] ps"
  show ?case
  proof (cases "i < n")
    case True
    have "seedAt (?f n ?F) i = seedAt ?F i"
      using True by (simp add: seedAt_def respawnParticle_other)
    then show ?thesis using Suc.IH[OF True Suc.prems(2)] by simp
  next
    case False
    then have i: "i = n" using Suc.prems(1) by simp
    have len: "i * 3 + 2 < length ?F" using Suc.prems(2) by (simp add: respawnFold_length)
    have old: "seedAt ?F i = seedAt ps i"
      unfolding seedAt_def i by (simp add: respawnFold_beyond)
    have "seedAt (?f i ?F) i = seedAt (?f i ps) i"
    proof (cases "respawns gt delta lts i")
      case True
      then show ?thesis
        using respawnParticle_seed[OF True len] respawnParticle_seed[OF True Suc.prems(2)] by simp
    next
      case False
      then show ?thesis using old by (simp add: respawnParticle_seed_old)
    qed
    then show ?thesis using i by simp
  qed
qed

lemma respawnLoop_seed:
  assumes "i < length lts" "length ps = 3 * length lts" "respawns gt delta lts i"
  shows "seedAt (respawnLoop gt delta m r strength orig lts ps) i =
         respawnPosition gt m r strength (orig ! (i * 3)) (orig ! (i * 3 + 1)) (orig ! (i * 3 + 2))"
proof -
  have len: "i * 3 + 2 < length ps" using assms(1,2) by simp
  show ?thesis
    unfolding respawnLoop_def
    using respawnFold_seed[OF assms(1) len] respawnParticle_seed[OF assms(3) len] by simp
qed

lemma respawnLoop_length:
  "length (respawnLoop gt delta m r strength orig lts ps) = length ps"
  by (simp add: respawnLoop_def respawnFold_length)

lemma useFrame_positions:
  assumes "materialRef s = Some u" "geometryPositions s = Some ps" "originalPositions s = Some orig"
  shows "geometryPositions (FloatingParticles_useFrame inp s) =
         Some (respawnLoop (globalTime inp) (globalTime inp - lastTimeRef s) (localMouse inp)
                 (radius inp) (strengthBase inp) orig (lifetimes s) ps)"
  using assms by (simp add: FloatingParticles_useFrame_def Let_def)

lemma useFrame_fixed:
  "originalPositions (FloatingParticles_useFrame inp s) = originalPositions s"
  "lifetimes (FloatingParticles_useFrame inp s) = lifetimes s"
  by (simp_all add: FloatingParticles_useFrame_def Let_def split: option.splits)

lemma useFrame_mounted:
  "materialRef s \<noteq> None \<Longrightarrow> materialRef (FloatingParticles_useFrame inp s) \<noteq> None"
  by (simp add: FloatingParticles_useFrame_def Let_def split: option.splits)

lemma useFrame_geometry:
  "geometryPositions s = Some ps \<Longrightarrow>
   \<exists>ps'. geometryPositions (FloatingParticles_useFrame inp s) = Some ps' \<and> length ps' = length ps"
  by (auto simp: FloatingParticles_useFrame_def Let_def respawnLoop_length split: option.splits)

lemma frames_fixed:
  "originalPositions (FloatingParticles_frames inps s) = originalPositions s \<and>
   lifetimes (FloatingParticles_frames inps s) = lifetimes s"
  unfolding FloatingParticles_frames_def
  by (induction inps arbitrary: s) (simp_all add: useFrame_fixed)

lemma frames_mounted:
  "materialRef s \<noteq> None \<Longrightarrow> materialRef (FloatingParticles_frames inps s) \<noteq> None"
  unfolding FloatingParticles_frames_def
proof (induction inps arbitrary: s)
  case Nil
  then show ?case by simp
next
  case (Cons a inps)
  have "materialRef (FloatingParticles_useFrame a s) \<noteq> None"
    by (rule useFrame_mounted[OF Cons.prems])
  from Cons.IH[OF this] show ?case by simp
qed

lemma frames_geometry:
  "geometryPositions s = Some ps \<Longrightarrow>
   \<exists>ps'. geometryPositions (FloatingParticles_frames inps s) = Some ps' \<and> length ps' = length ps"
  unfolding FloatingParticles_frames_def
proof (induction inps arbitrary: s ps)
  case Nil
  then show ?case by simp
next
  case (Cons a inps)
  from useFrame_geometry[OF Cons.prems, of a] obtain p1 where
    p1: "geometryPositions (FloatingParticles_useFrame a s) = Some p1" "length p1 = length ps"
    by blast
  from Cons.IH[OF p1(1)] p1(2) show ?case by simp
qed

lemma useFrame_lastTime:
  "materialRef s = Some u \<Longrightarrow> lastTimeRef (FloatingParticles_useFrame inp s) = globalTime inp"
  by (simp add: FloatingParticles_useFrame_def Let_def split: option.splits)

section \<open>Displacement bound\<close>

text \<open>
  C6. When the frame callback respawns particle \<open>i\<close> with a radius above 0 and a strength
  of at least 0, the seed position it writes is at most \<open>strength\<close> away from the
  particle's original position; so is every value of the displacement function. The reason
  is the one the claim gives: the force is in \<open>[0, 1]\<close> for a distance below the radius,
  each of the four noise layers is in \<open>[0, 1]\<close>, and the random factor is in
  \<open>[0.3, 1]\<close>.
\<close>

theorem respawn_displacement_bounded:
  assumes "materialRef s = Some u" and "geometryPositions s = Some ps"
    and "originalPositions s = Some orig"
    and "length ps = 3 * length (lifetimes s)" and "i < length (lifetimes s)"
    and "respawns (globalTime inp) (globalTime inp - lastTimeRef s) (lifetimes s) i"
    and "0 < radius inp" and "0 \<le> strengthBase inp"
  shows "(\<exists>ps'. geometryPositions (FloatingParticles_useFrame inp s) = Some ps' \<and>
                distance3 (seedAt ps' i) (seedAt orig i) \<le> strengthBase inp) \<and>
         (\<forall>gt m ox oy oz.
            distance3 (respawnPosition gt m (radius inp) (strengthBase inp) ox oy oz) (ox, oy, oz)
              \<le> strengthBase inp) \<and>
         (\<forall>dst. 0 \<le> dst \<and> dst < radius inp \<longrightarrow>
            0 \<le> force dst (radius inp) \<and> force dst (radius inp) \<le> 1) \<and>
         (\<forall>ox oy oz dx dy t.
            0 \<le> spatialNoise ox oy oz t \<and> spatialNoise ox oy oz t \<le> 1 \<and>
            0 \<le> temporalNoise ox oy t \<and> temporalNoise ox oy t \<le> 1 \<and>
            0 \<le> detailNoise ox oy oz t \<and> detailNoise ox oy oz t \<le> 1 \<and>
            0 \<le> dirNoise dx dy t \<and> dirNoise dx dy t \<le> 1 \<and>
            0.3 \<le> randomFactor ox oy oz dx dy t \<and> randomFactor ox oy oz dx dy t \<le> 1)"
proof -
  let ?ps' = "respawnLoop (globalTime inp) (globalTime inp - lastTimeRef s) (localMouse inp)
                (radius inp) (strengthBase inp) orig (lifetimes s) ps"
  have pos: "geometryPositions (FloatingParticles_useFrame inp s) = Some ?ps'"
    by (rule useFrame_positions[OF assms(1,2,3)])
  have seed: "seedAt ?ps' i =
              respawnPosition (globalTime inp) (localMouse inp) (radius inp) (strengthBase inp)
                (orig ! (i * 3)) (orig ! (i * 3 + 1)) (orig ! (i * 3 + 2))"
    by (rule respawnLoop_seed[OF assms(5,4,6)])
  have "distance3 (seedAt ?ps' i) (seedAt orig i) \<le> strengthBase inp"
    unfolding seed using respawnPosition_bound[OF assms(8)] by (simp add: seedAt_def)
  with pos have A: "\<exists>ps'. geometryPositions (FloatingParticles_useFrame inp s) = Some ps' \<and>
                distance3 (seedAt ps' i) (seedAt orig i) \<le> strengthBase inp"
    by blast
  have B: "\<forall>gt m ox oy oz.
            distance3 (respawnPosition gt m (radius inp) (strengthBase inp) ox oy oz) (ox, oy, oz)
              \<le> strengthBase inp"
    using respawnPosition_bound[OF assms(8)] by blast
  have C: "\<forall>dst. 0 \<le> dst \<and> dst < radius inp \<longrightarrow>
            0 \<le> force dst (radius inp) \<and> force dst (radius inp) \<le> 1"
    using force_range by blast
  have D: "\<forall>ox oy oz dx dy t.
            0 \<le> spatialNoise ox oy oz t \<and> spatialNoise ox oy oz t \<le> 1 \<and>
            0 \<le> temporalNoise ox oy t \<and> temporalNoise ox oy t \<le> 1 \<and>
            0 \<le> detailNoise ox oy oz t \<and> detailNoise ox oy oz t \<le> 1 \<and>
            0 \<le> dirNoise dx dy t \<and> dirNoise dx dy t \<le> 1 \<and>
            0.3 \<le> randomFactor ox oy oz dx dy t \<and> randomFactor ox oy oz dx dy t \<le> 1"
    using noise_layers_range randomFactor_range by blast
  from A B C D show ?thesis by blast
qed

lemma example_respawns_near:
  "respawns (globalTime nearFrame) (globalTime nearFrame - lastTimeRef exampleSwarm)
     (lifetimes exampleSwarm) 0"
  by (simp add: respawns_def ageOf_def fmod_def jsrem_def trunc_def PARTICLE_LIFETIME_def
      nearFrame_def exampleSwarm_def)

theorem respawn_displacement_bounded_witness:
  "\<exists>ps'. geometryPositions (FloatingParticles_useFrame nearFrame exampleSwarm) = Some ps' \<and>
         distance3 (seedAt ps' 0) (seedAt [1, 0, 0] 0) \<le> 0.4"
  using respawn_displacement_bounded[of exampleSwarm exampleUniforms "[1, 0, 0]" "[1, 0, 0]" 0 nearFrame]
    example_respawns_near
  by (simp add: exampleSwarm_def nearFrame_def)

section \<open>Forcefield boundary\<close>

text \<open>
  C7. When the frame callback respawns particle \<open>i\<close> and the distance of its original
  position to the interaction point is at least the radius, or below the guard
  \<open>0.000001\<close>, it writes the original position back unchanged.
\<close>

theorem respawn_identity_outside_forcefield:
  assumes "materialRef s = Some u" and "geometryPositions s = Some ps"
    and "originalPositions s = Some orig"
    and "length ps = 3 * length (lifetimes s)" and "i < length (lifetimes s)"
    and "respawns (globalTime inp) (globalTime inp - lastTimeRef s) (lifetimes s) i"
    and "radius inp \<le> sourceDistance orig i (localMouse inp) \<or>
         sourceDistance orig i (localMouse inp) < 0.000001"
  shows "\<exists>ps'. geometryPositions (FloatingParticles_useFrame inp s) = Some ps' \<and>
               seedAt ps' i = seedAt orig i"
proof -
  let ?ps' = "respawnLoop (globalTime inp) (globalTime inp - lastTimeRef s) (localMouse inp)
                (radius inp) (strengthBase inp) orig (lifetimes s) ps"
  have pos: "geometryPositions (FloatingParticles_useFrame inp s) = Some ?ps'"
    by (rule useFrame_positions[OF assms(1,2,3)])
  have out: "radius inp \<le> distTo (orig ! (i * 3)) (orig ! (i * 3 + 1)) (orig ! (i * 3 + 2)) (localMouse inp) \<or>
             distTo (orig ! (i * 3)) (orig ! (i * 3 + 1)) (orig ! (i * 3 + 2)) (localMouse inp) \<le> 0.000001"
    using assms(7) unfolding sourceDistance_def by auto
  have "seedAt ?ps' i = seedAt orig i"
    using respawnLoop_seed[OF assms(5,4,6)] respawnPosition_outside[OF out]
    by (simp add: seedAt_def)
  with pos show ?thesis by blast
qed

lemma example_respawns_far:
  "respawns (globalTime farFrame) (globalTime farFrame - lastTimeRef exampleSwarm)
     (lifetimes exampleSwarm) 0"
  by (simp add: respawns_def ageOf_def fmod_def jsrem_def trunc_def PARTICLE_LIFETIME_def
      farFrame_def exampleSwarm_def)

lemma example_far: "radius farFrame \<le> sourceDistance [1, 0, 0] 0 (localMouse farFrame)"
proof -
  have "(2::real) \<le> sqrt 9" by (rule real_le_rsqrt) simp
  then show ?thesis by (simp add: sourceDistance_def distTo_def farFrame_def)
qed

theorem respawn_identity_outside_forcefield_witness:
  "\<exists>ps'. geometryPositions (FloatingParticles_useFrame farFrame exampleSwarm) = Some ps' \<and>
         seedAt ps' 0 = seedAt [1, 0, 0] 0"
  using respawn_identity_outside_forcefield
          [of exampleSwarm exampleUniforms "[1, 0, 0]" "[1, 0, 0]" 0 farFrame]
    example_respawns_far example_far
  by (simp add: exampleSwarm_def)

section \<open>History independence of respawns\<close>

text \<open>
  C9. After any run of earlier frames the original positions are the ones the particle data
  was built with, and the seed a respawn writes for particle \<open>i\<close> is computed from them and
  from the frame's inputs alone, whatever the position array holds by then. With the
  interaction point out of range (distance at least the radius, or at most \<open>0.000001\<close>)
  the respawn writes exactly the original position: displacement does not accumulate.
\<close>

theorem respawn_history_independent:
  assumes "materialRef s = Some u" and "geometryPositions s = Some ps"
    and "originalPositions s = Some orig"
    and "length ps = 3 * length (lifetimes s)" and "i < length (lifetimes s)"
    and "respawns (globalTime inp)
           (globalTime inp - lastTimeRef (FloatingParticles_frames inps s)) (lifetimes s) i"
  shows "originalPositions (FloatingParticles_frames inps s) = Some orig \<and>
         (\<exists>cur ps'.
            geometryPositions (FloatingParticles_frames inps s) = Some cur \<and>
            geometryPositions (FloatingParticles_useFrame inp (FloatingParticles_frames inps s))
              = Some ps' \<and>
            seedAt ps' i =
              respawnPosition (globalTime inp) (localMouse inp) (radius inp) (strengthBase inp)
                (orig ! (i * 3)) (orig ! (i * 3 + 1)) (orig ! (i * 3 + 2)) \<and>
            (radius inp \<le> sourceDistance orig i (localMouse inp) \<or>
             sourceDistance orig i (localMouse inp) \<le> 0.000001
               \<longrightarrow> seedAt ps' i = seedAt orig i))"
proof -
  let ?s' = "FloatingParticles_frames inps s"
  have fixed: "originalPositions ?s' = Some orig" "lifetimes ?s' = lifetimes s"
    using frames_fixed[of inps s] assms(3) by simp_all
  obtain u' where mat: "materialRef ?s' = Some u'"
    using frames_mounted[of s inps] assms(1) by auto
  obtain cur where cur: "geometryPositions ?s' = Some cur" "length cur = length ps"
    using frames_geometry[OF assms(2), of inps] by blast
  let ?ps' = "respawnLoop (globalTime inp) (globalTime inp - lastTimeRef ?s') (localMouse inp)
                (radius inp) (strengthBase inp) orig (lifetimes ?s') cur"
  have pos: "geometryPositions (FloatingParticles_useFrame inp ?s') = Some ?ps'"
    by (rule useFrame_positions[OF mat cur(1) fixed(1)])
  have i: "i < length (lifetimes ?s')" using assms(5) fixed(2) by simp
  have len: "length cur = 3 * length (lifetimes ?s')" using cur(2) assms(4) fixed(2) by simp
  have resp: "respawns (globalTime inp) (globalTime inp - lastTimeRef ?s') (lifetimes ?s') i"
    using assms(6) fixed(2) by simp
  have seed: "seedAt ?ps' i =
              respawnPosition (globalTime inp) (localMouse inp) (radius inp) (strengthBase inp)
                (orig ! (i * 3)) (orig ! (i * 3 + 1)) (orig ! (i * 3 + 2))"
    by (rule respawnLoop_seed[OF i len resp])
  have out: "seedAt ?ps' i = seedAt orig i"
    if h: "radius inp \<le> sourceDistance orig i (localMouse inp) \<or>
           sourceDistance orig i (localMouse inp) \<le> 0.000001"
  proof -
    have "respawnPosition (globalTime inp) (localMouse inp) (radius inp) (strengthBase inp)
            (orig ! (i * 3)) (orig ! (i * 3 + 1)) (orig ! (i * 3 + 2))
          = (orig ! (i * 3), orig ! (i * 3 + 1), orig ! (i * 3 + 2))"
      using h unfolding sourceDistance_def by (rule respawnPosition_outside)
    then show ?thesis unfolding seed by (simp add: seedAt_def)
  qed
  show ?thesis using fixed(1) cur(1) pos seed out by blast
qed

lemma example_respawns_after_near:
  "respawns (globalTime farFrame)
     (globalTime farFrame - lastTimeRef (FloatingParticles_frames [nearFrame] exampleSwarm))
     (lifetimes exampleSwarm) 0"
proof -
  have "lastTimeRef (FloatingParticles_frames [nearFrame] exampleSwarm) = 4"
    using useFrame_lastTime[of exampleSwarm exampleUniforms nearFrame]
    by (simp add: FloatingParticles_frames_def exampleSwarm_def nearFrame_def)
  then show ?thesis
    by (simp add: respawns_def ageOf_def fmod_def jsrem_def trunc_def PARTICLE_LIFETIME_def
        farFrame_def exampleSwarm_def)
qed

theorem respawn_history_independent_witness:
  "\<exists>ps'. geometryPositions
           (FloatingParticles_useFrame farFrame (FloatingParticles_frames [nearFrame] exampleSwarm))
           = Some ps' \<and> seedAt ps' 0 = seedAt [1, 0, 0] 0"
  using respawn_history_independent
          [of exampleSwarm exampleUniforms "[1, 0, 0]" "[1, 0, 0]" 0 farFrame "[nearFrame]"]
    example_respawns_after_near example_far
  by (auto simp: exampleSwarm_def)

section \<open>Burst re-entrancy\<close>

text \<open>
  C8. A transaction trigger that arrives while a burst is active changes nothing: the burst
  state (active flag, start time, kind, particle list) and the rest of the component state
  are as before. The component holds one burst state, so one burst at most is active.
\<close>

theorem burst_trigger_ignored_while_active:
  "isActive (burstStateRef s) \<Longrightarrow> burstInitEffect te rnd now s = s"
  by (simp add: burstInitEffect_def split: option.splits)

theorem burst_trigger_ignored_while_active_witness:
  "burstInitEffect (Some \<lparr> teType = Some ''sell'', teIsActive = True \<rparr>) (\<lambda>_. 0.5) 5000
     (exampleSwarm\<lparr> burstStateRef := activeBurst \<rparr>)
   = exampleSwarm\<lparr> burstStateRef := activeBurst \<rparr>"
  using burst_trigger_ignored_while_active
          [of "exampleSwarm\<lparr> burstStateRef := activeBurst \<rparr>"
              "Some \<lparr> teType = Some ''sell'', teIsActive = True \<rparr>" "\<lambda>_. 0.5" 5000]
  by (simp add: activeBurst_def)

section \<open>The burst\<close>

















section \<open>Phase offsets\<close>








section \<open>Spin normalization\<close>

lemma normalizeRotation_fmod:
  "normalizeRotation start =
     (let n = fmod (start + pi * 2) (pi * 2) in if n > pi then n - pi * 2 else n)"
  by (simp add: normalizeRotation_def fmod_def Let_def)

lemma normalizeRotation_range:
  "- pi < normalizeRotation start \<and> normalizeRotation start \<le> pi"
proof -
  have "0 \<le> fmod (start + pi * 2) (pi * 2) \<and> fmod (start + pi * 2) (pi * 2) < pi * 2"
    by (rule fmod_range) simp
  then show ?thesis unfolding normalizeRotation_fmod Let_def using pi_gt_zero by auto
qed

lemma normalizeRotation_congr:
  "\<exists>k::int. normalizeRotation start = start + of_int k * (2 * pi)"
proof -
  obtain k :: int where k: "fmod (start + pi * 2) (pi * 2) = (start + pi * 2) + of_int k * (pi * 2)"
    using fmod_congr by blast
  show ?thesis
  proof (cases "fmod (start + pi * 2) (pi * 2) > pi")
    case True
    then have "normalizeRotation start = start + of_int k * (2 * pi)"
      unfolding normalizeRotation_fmod Let_def using k by (simp add: algebra_simps)
    then show ?thesis by blast
  next
    case False
    then have "normalizeRotation start = start + of_int (k + 1) * (2 * pi)"
      unfolding normalizeRotation_fmod Let_def using k by (simp add: algebra_simps)
    then show ?thesis by blast
  qed
qed

lemma useFrame_spin_fields:
  "baseRotation (PFPCard_useFrame t delta s) = baseRotation (spinBlock t delta s s)"
  "isSpinning (PFPCard_useFrame t delta s) = isSpinning (spinBlock t delta s s)"
  "spinProgress (PFPCard_useFrame t delta s) = spinProgress (spinBlock t delta s s)"
  by (simp_all add: PFPCard_useFrame_def stableOpacityBlock_def transitionBlock_def
      spinCrossfade_def completeTransition_def timedCrossfade_def Let_def)

lemma spinBlock_complete:
  assumes "meshMounted s" "isSpinning s" "1 \<le> spinProgress s + delta * spinSpeed"
  shows "baseRotation (spinBlock t delta s s) = normalizeRotation (spinStartRotation s)"
    and "\<not> isSpinning (spinBlock t delta s s)"
    and "spinProgress (spinBlock t delta s s) = 0"
  using assms by (simp_all add: spinBlock_def Let_def)

text \<open>
  C4. On the frame that completes a spin (the advanced spin progress reaches 1), for every
  start rotation, the base rotation becomes \<open>(spinStartRotation + 2\<pi>) mod 2\<pi>\<close>, taken
  down by \<open>2\<pi>\<close> when it is above \<open>\<pi>\<close>: it lies in \<open>(-\<pi>, \<pi>]\<close>, it differs from the start
  rotation by a whole number of turns, and the card stops spinning.
\<close>

theorem spin_completion_normalizes_rotation:
  assumes "meshMounted s" and "isSpinning s" and "1 \<le> spinProgress s + delta * spinSpeed"
  shows "baseRotation (PFPCard_useFrame t delta s) =
           (let n = fmod (spinStartRotation s + pi * 2) (pi * 2)
            in if n > pi then n - pi * 2 else n) \<and>
         - pi < baseRotation (PFPCard_useFrame t delta s) \<and>
         baseRotation (PFPCard_useFrame t delta s) \<le> pi \<and>
         (\<exists>k::int. baseRotation (PFPCard_useFrame t delta s) =
                     spinStartRotation s + of_int k * (2 * pi)) \<and>
         \<not> isSpinning (PFPCard_useFrame t delta s)"
proof -
  have b: "baseRotation (PFPCard_useFrame t delta s) = normalizeRotation (spinStartRotation s)"
    unfolding useFrame_spin_fields by (rule spinBlock_complete(1)[OF assms])
  have i: "\<not> isSpinning (PFPCard_useFrame t delta s)"
    unfolding useFrame_spin_fields by (rule spinBlock_complete(2)[OF assms])
  show ?thesis
    unfolding b
    using normalizeRotation_fmod[of "spinStartRotation s"]
      normalizeRotation_range[of "spinStartRotation s"]
      normalizeRotation_congr[of "spinStartRotation s"] i
    by simp
qed

theorem spin_completion_normalizes_rotation_witness:
  "- pi < baseRotation (PFPCard_useFrame 0 0.2 spinningCard) \<and>
   baseRotation (PFPCard_useFrame 0 0.2 spinningCard) \<le> pi \<and>
   (\<exists>k::int. baseRotation (PFPCard_useFrame 0 0.2 spinningCard) = 1 + of_int k * (2 * pi)) \<and>
   \<not> isSpinning (PFPCard_useFrame 0 0.2 spinningCard)"
proof -
  have h: "meshMounted spinningCard" "isSpinning spinningCard"
    "1 \<le> spinProgress spinningCard + 0.2 * spinSpeed" "spinStartRotation spinningCard = 1"
    by (simp_all add: spinningCard_def requestedCard_def stableCard_def textureLoaded_def
        spinSpeed_def)
  from spin_completion_normalizes_rotation[OF h(1,2,3), of 0] show ?thesis
    unfolding h(4) by blast
qed

section \<open>The crossfade\<close>

lemma spinBlock_keeps_transition:
  "currentMeshOpacity (spinBlock t delta r s) = currentMeshOpacity s"
  "nextMeshOpacity (spinBlock t delta r s) = nextMeshOpacity s"
  "transitionProgress (spinBlock t delta r s) = transitionProgress s"
  "currentTexture (spinBlock t delta r s) = currentTexture s"
  "nextTexture (spinBlock t delta r s) = nextTexture s"
  "isTransitioning (spinBlock t delta r s) = isTransitioning s"
  by (simp_all add: spinBlock_def Let_def)

lemma useFrame_spinning_transition:
  assumes "isTransitioning s" "nextTexture s \<noteq> None" "currentMeshOpacity s \<noteq> None"
    "nextMeshOpacity s \<noteq> None" "isSpinning s"
  shows "PFPCard_useFrame t delta s = spinCrossfade (spinBlock t delta s s)"
  using assms
  by (simp add: PFPCard_useFrame_def stableOpacityBlock_def transitionBlock_def
      spinBlock_keeps_transition)

lemma useFrame_resting_transition:
  assumes "isTransitioning s" "nextTexture s \<noteq> None" "currentMeshOpacity s \<noteq> None"
    "nextMeshOpacity s \<noteq> None" "\<not> isSpinning s"
  shows "PFPCard_useFrame t delta s = completeTransition s (spinBlock t delta s s)"
  using assms
  by (simp add: PFPCard_useFrame_def stableOpacityBlock_def transitionBlock_def
      spinBlock_keeps_transition)

lemma spinCrossfade_opacities:
  "\<exists>p. 0 \<le> p \<and> p \<le> 1 \<and>
       p = max 0 (min ((spinProgress s - crossfadeStart) / (1 - crossfadeStart)) 1) \<and>
       currentMeshOpacity (spinCrossfade s) = Some (1 - p) \<and>
       nextMeshOpacity (spinCrossfade s) = Some p"
  by (simp add: spinCrossfade_def Let_def)

lemma timedCrossfade_opacities:
  "currentMeshOpacity (timedCrossfade delta r s) =
     Some (1 - min (transitionProgress s + delta * transitionSpeed) 1) \<and>
   nextMeshOpacity (timedCrossfade delta r s) =
     Some (min (transitionProgress s + delta * transitionSpeed) 1)"
  by (simp add: timedCrossfade_def completeTransition_def Let_def)

text \<open>
  C5 holds of a frame while the card spins and fails of a frame with the card at rest, by
  the defect that C1 shows. On a frame during a transition, with both meshes mounted:
  while the card spins the frame writes \<open>1 - p\<close> to the current material and \<open>p\<close> to the
  next one, where \<open>p\<close> is the spin progress mapped from \<open>[0.4, 1]\<close> onto \<open>[0, 1]\<close> and
  clamped. With the card at rest the frame writes neither opacity: both keep the values
  they had, which for the freshly mounted next mesh are 1 and 1, not a pair that sums
  to 1.
\<close>

theorem crossfade_writes_only_while_spinning:
  assumes "isTransitioning s" and "nextTexture s \<noteq> None"
    and "currentMeshOpacity s = Some a" and "nextMeshOpacity s = Some b"
  shows "(isSpinning s \<longrightarrow>
            (\<exists>p. 0 \<le> p \<and> p \<le> 1 \<and>
                 p = max 0 (min ((spinProgress (spinBlock t delta s s) - crossfadeStart)
                                   / (1 - crossfadeStart)) 1) \<and>
                 currentMeshOpacity (PFPCard_useFrame t delta s) = Some (1 - p) \<and>
                 nextMeshOpacity (PFPCard_useFrame t delta s) = Some p)) \<and>
         (\<not> isSpinning s \<longrightarrow>
            currentMeshOpacity (PFPCard_useFrame t delta s) = Some a \<and>
            nextMeshOpacity (PFPCard_useFrame t delta s) = Some b)"
proof -
  let ?s' = "PFPCard_useFrame t delta s"
  have mounted: "currentMeshOpacity s \<noteq> None" "nextMeshOpacity s \<noteq> None"
    using assms(3,4) by simp_all
  have spin: "\<exists>p. 0 \<le> p \<and> p \<le> 1 \<and>
                 p = max 0 (min ((spinProgress (spinBlock t delta s s) - crossfadeStart)
                                   / (1 - crossfadeStart)) 1) \<and>
                 currentMeshOpacity ?s' = Some (1 - p) \<and> nextMeshOpacity ?s' = Some p"
    if h: "isSpinning s"
    unfolding useFrame_spinning_transition[OF assms(1,2) mounted h]
    by (rule spinCrossfade_opacities)
  have rest: "currentMeshOpacity ?s' = Some a \<and> nextMeshOpacity ?s' = Some b"
    if h: "\<not> isSpinning s"
    unfolding useFrame_resting_transition[OF assms(1,2) mounted h]
    using assms(3,4) by (simp add: completeTransition_def spinBlock_keeps_transition)
  show ?thesis using spin rest by blast
qed

theorem crossfade_writes_only_while_spinning_witness:
  "currentMeshOpacity (PFPCard_useFrame 0 0.1 spinningCard) = Some 0.25 \<and>
   nextMeshOpacity (PFPCard_useFrame 0 0.1 spinningCard) = Some 0.75 \<and>
   currentMeshOpacity (PFPCard_useFrame 0 0.1 requestedCard) = Some 1 \<and>
   nextMeshOpacity (PFPCard_useFrame 0 0.1 requestedCard) = Some 1"
proof -
  have h: "isTransitioning spinningCard" "nextTexture spinningCard \<noteq> None"
    "currentMeshOpacity spinningCard = Some 1" "nextMeshOpacity spinningCard = Some 1"
    and hs: "isSpinning spinningCard"
    by (simp_all add: spinningCard_def requestedCard_def stableCard_def textureLoaded_def)
  have q: "isTransitioning requestedCard" "nextTexture requestedCard \<noteq> None"
    "currentMeshOpacity requestedCard = Some 1" "nextMeshOpacity requestedCard = Some 1"
    and qs: "\<not> isSpinning requestedCard"
    by (simp_all add: requestedCard_def stableCard_def textureLoaded_def)
  have p: "max 0 (min ((spinProgress (spinBlock 0 0.1 spinningCard spinningCard) - crossfadeStart)
                        / (1 - crossfadeStart)) 1) = 0.75"
    by (simp add: spinBlock_def Let_def spinningCard_def requestedCard_def stableCard_def
        textureLoaded_def spinSpeed_def crossfadeStart_def)
  have A: "currentMeshOpacity (PFPCard_useFrame 0 0.1 spinningCard) = Some 0.25 \<and>
           nextMeshOpacity (PFPCard_useFrame 0 0.1 spinningCard) = Some 0.75"
    using crossfade_writes_only_while_spinning[OF h, of 0 "0.1"] hs unfolding p by auto
  have B: "currentMeshOpacity (PFPCard_useFrame 0 0.1 requestedCard) = Some 1 \<and>
           nextMeshOpacity (PFPCard_useFrame 0 0.1 requestedCard) = Some 1"
    using crossfade_writes_only_while_spinning[OF q, of 0 "0.1"] qs by simp
  show ?thesis using A B by blast
qed

text \<open>
  C1 does not hold of the code. On a frame during a transition with the card at rest, the
  transition block takes its second branch, which needs only that the card is not spinning
  and that a next texture is set; both hold already. The frame makes the next texture
  current at once, leaves the transition progress where it was and writes no opacity, so
  the time-coupled branch after it never runs. The effect on the spin and transition
  state does the same when it runs first.
\<close>

theorem timed_crossfade_never_runs:
  assumes "isTransitioning s" and "nextTexture s = Some b" and "\<not> isSpinning s"
    and "currentMeshOpacity s \<noteq> None" and "nextMeshOpacity s \<noteq> None"
  shows "transitionProgress (PFPCard_useFrame t delta s) = transitionProgress s \<and>
         currentTexture (PFPCard_useFrame t delta s) = Some b \<and>
         nextTexture (PFPCard_useFrame t delta s) = None \<and>
         \<not> isTransitioning (PFPCard_useFrame t delta s) \<and>
         currentMeshOpacity (PFPCard_useFrame t delta s) = currentMeshOpacity s \<and>
         nextMeshOpacity (PFPCard_useFrame t delta s) = nextMeshOpacity s \<and>
         currentTexture (spinCompletionEffect s) = Some b \<and>
         \<not> isTransitioning (spinCompletionEffect s) \<and>
         transitionProgress (spinCompletionEffect s) = transitionProgress s"
proof -
  have n: "nextTexture s \<noteq> None" using assms(2) by simp
  have eff: "currentTexture (spinCompletionEffect s) = Some b \<and>
         \<not> isTransitioning (spinCompletionEffect s) \<and>
         transitionProgress (spinCompletionEffect s) = transitionProgress s"
    using assms(1,2,3) by (simp add: spinCompletionEffect_def)
  show ?thesis
    unfolding useFrame_resting_transition[OF assms(1) n assms(4,5,3)]
    using assms(2) eff by (simp add: completeTransition_def spinBlock_keeps_transition)
qed

theorem timed_crossfade_never_runs_witness:
  "transitionProgress requestedCard = 0 \<and>
   transitionProgress (PFPCard_useFrame 0 0.1 requestedCard) = 0 \<and>
   currentTexture requestedCard = Some 1 \<and>
   currentTexture (PFPCard_useFrame 0 0.1 requestedCard) = Some 2 \<and>
   \<not> isTransitioning (PFPCard_useFrame 0 0.1 requestedCard) \<and>
   currentMeshOpacity (PFPCard_useFrame 0 0.1 requestedCard) = Some 1 \<and>
   nextMeshOpacity (PFPCard_useFrame 0 0.1 requestedCard) = Some 1"
proof -
  have h: "isTransitioning requestedCard" "nextTexture requestedCard = Some 2"
    "\<not> isSpinning requestedCard" "currentMeshOpacity requestedCard \<noteq> None"
    "nextMeshOpacity requestedCard \<noteq> None"
    and v: "transitionProgress requestedCard = 0" "currentTexture requestedCard = Some 1"
    "currentMeshOpacity requestedCard = Some 1" "nextMeshOpacity requestedCard = Some 1"
    by (simp_all add: requestedCard_def stableCard_def textureLoaded_def)
  from timed_crossfade_never_runs[OF h, of 0 "0.1"] v show ?thesis by simp
qed


end
